theory Spec2Isabelle
  imports Complex_Main
begin

section \<open>Newsly bot: a shallow embedding of \<open>man.py\<close>\<close>

text \<open>
  The script keeps three pieces of session memory, calls a search API over HTTP and a
  hosted chat model, and routes each input by keyword. Python strings are modelled as
  \<open>string\<close> (the UTF-8 bytes of the text). An exception of a class derived from
  \<open>Exception\<close> is a value of type \<open>exn\<close>; an exception outside \<open>Exception\<close>, which
  \<open>except Exception\<close> does not catch, is a value of type \<open>base_exn\<close>. A function of the
  script that can raise returns the exception as a value.
\<close>

subsection \<open>Python values\<close>

text \<open>
  The values that \<open>response.json()\<close> can produce, which are also the values the memory
  stores. A dict is the association list of its items, looked up with \<open>map_of\<close>. A float
  is taken as the real number it denotes.
\<close>

datatype pyval =
    PNone
  | PBool bool
  | PInt int
  | PFloat real
  | PStr string
  | PList "pyval list"
  | PDict "(string \<times> pyval) list"

datatype exn = AttributeError | TypeError | ExternalError

datatype base_exn = KeyboardInterrupt | SystemExit

text \<open>
  What a call into a library can do: return a value, raise an exception derived from
  \<open>Exception\<close>, or let an exception outside \<open>Exception\<close> through.
\<close>

datatype 'a outcome = Returns 'a | Raises exn | Escapes base_exn

text \<open>Truth value of an object, as tested by \<open>if last_tavily_response:\<close>.\<close>

fun truthy :: "pyval \<Rightarrow> bool" where
  "truthy PNone = False"
| "truthy (PBool b) = b"
| "truthy (PInt i) = (i \<noteq> 0)"
| "truthy (PFloat r) = (r \<noteq> 0)"
| "truthy (PStr s) = (s \<noteq> [])"
| "truthy (PList xs) = (xs \<noteq> [])"
| "truthy (PDict kvs) = (kvs \<noteq> [])"

text \<open>\<open>d.get(key, default)\<close> on a dict.\<close>

definition dict_get :: "(string \<times> pyval) list \<Rightarrow> string \<Rightarrow> pyval \<Rightarrow> pyval" where
  "dict_get kvs key dflt = (case map_of kvs key of None \<Rightarrow> dflt | Some v \<Rightarrow> v)"

text \<open>
  \<open>x.get(key, default)\<close> on any object: only a dict has the method, every other value
  raises \<open>AttributeError\<close>.
\<close>

fun py_get :: "pyval \<Rightarrow> string \<Rightarrow> pyval \<Rightarrow> exn + pyval" where
  "py_get (PDict kvs) key dflt = Inr (dict_get kvs key dflt)"
| "py_get _ key dflt = Inl AttributeError"

text \<open>
  \<open>x[:5]\<close> followed by iteration: a list gives its first five elements, a string its
  first five characters (each a string of length one), any other value raises. A
  character is taken as one \<open>char\<close>.
\<close>

fun first_five :: "pyval \<Rightarrow> exn + pyval list" where
  "first_five (PList xs) = Inr (take 5 xs)"
| "first_five (PStr s) = Inr (map (\<lambda>c. PStr [c]) (take 5 s))"
| "first_five _ = Inl TypeError"

subsection \<open>Strings\<close>

text \<open>
  \<open>str.lower()\<close>, on the ASCII letters; every other byte is left as it is. The keywords
  the script looks for are ASCII, and lowering a character outside ASCII never yields
  text in which one of them occurs where it did not before.
\<close>

definition lower_char :: "char \<Rightarrow> char" where
  "lower_char c =
     (let n = (of_char c :: nat) in if 65 \<le> n \<and> n \<le> 90 then char_of (n + 32) else c)"

definition lower :: "string \<Rightarrow> string" where
  "lower s = map lower_char s"

text \<open>\<open>p in s\<close> on strings: \<open>p\<close> occurs in \<open>s\<close> as a contiguous run.\<close>

fun py_in :: "string \<Rightarrow> string \<Rightarrow> bool" where
  "py_in p [] = (p = [])"
| "py_in p (c # cs) = (take (length p) (c # cs) = p \<or> py_in p cs)"

subsection \<open>Session memory\<close>

record chat_turn =
  role :: string
  content :: string

text \<open>
  The three entries of \<open>st.session_state\<close>, and \<open>sent\<close>: the messages passed to
  \<open>chat_session.send_message\<close> so far, oldest first.
\<close>

record session =
  conversation_memory :: "chat_turn list"
  user_memory :: "string \<rightharpoonup> (string \<rightharpoonup> pyval)"
  tavily_response_memory :: "string \<rightharpoonup> pyval"
  sent :: "string list"

definition update_memory :: "session \<Rightarrow> string \<Rightarrow> string \<Rightarrow> pyval \<Rightarrow> session" where
  "update_memory st user_id key v =
     st\<lparr>user_memory := (user_memory st)
        (user_id \<mapsto> (case user_memory st user_id of None \<Rightarrow> Map.empty | Some m \<Rightarrow> m)(key \<mapsto> v))\<rparr>"

text \<open>
  \<open>get_user_memory\<close> reads the session; the session is returned with the value so that
  two successive calls can be written down.
\<close>

definition get_user_memory :: "session \<Rightarrow> string \<Rightarrow> string \<Rightarrow> pyval \<times> session" where
  "get_user_memory st user_id key =
     (case (case user_memory st user_id of None \<Rightarrow> Map.empty | Some m \<Rightarrow> m) key of
        None \<Rightarrow> (PNone, st)
      | Some v \<Rightarrow> (v, st))"

subsection \<open>The outside world\<close>

text \<open>
  What one turn gets from outside: the API key, the outcome of \<open>requests.get\<close> for a URL,
  the outcome of \<open>chat_session.send_message\<close> for a message, and Python's \<open>str()\<close> of a
  value that is not a string. The property \<open>response.text\<close> of a chat reply can raise.
  An exception outside \<open>Exception\<close> is modelled where one of these calls raises it.
\<close>

record http_response =
  status_code :: int
  json :: "pyval outcome"

datatype chat_response = ChatResponse (response_text: "string outcome")

record env =
  tavily_api_key :: string
  requests_get :: "string \<Rightarrow> http_response outcome"
  send_message :: "string \<Rightarrow> chat_response outcome"
  str_other :: "pyval \<Rightarrow> string"

text \<open>A value inside an f-string: a string as it is, any other value through \<open>str()\<close>.\<close>

fun py_format :: "env \<Rightarrow> pyval \<Rightarrow> string" where
  "py_format e (PStr s) = s"
| "py_format e v = str_other e v"

subsection \<open>Search client\<close>

definition tavily_url :: "env \<Rightarrow> string \<Rightarrow> string" where
  "tavily_url e query =
     ''https://api.tavily.com/search?query='' @ query @ ''&apikey='' @ tavily_api_key e"

definition tavily_http_failure :: "string \<Rightarrow> string" where
  "tavily_http_failure query =
     ''Sorry, I couldn'' @ [CHR 0x27] @ ''t fetch information from Tavily for ''
       @ [CHR 0x27] @ query @ [CHR 0x27] @ ''.''"

definition tavily_exception_failure :: string where
  "tavily_exception_failure = ''An error occurred while calling the Tavily API.''"

text \<open>
  The body of the \<open>try\<close> of \<open>fetch_from_tavily\<close>: \<open>requests.get\<close>, \<open>response.json()\<close> and
  \<open>data.get\<close> can each raise.
\<close>

definition fetch_body :: "env \<Rightarrow> string \<Rightarrow> pyval outcome" where
  "fetch_body e query =
     (case requests_get e (tavily_url e query) of
        Raises x \<Rightarrow> Raises x
      | Escapes b \<Rightarrow> Escapes b
      | Returns response \<Rightarrow>
          if status_code response = 200 then
            (case json response of
               Raises x \<Rightarrow> Raises x
             | Escapes b \<Rightarrow> Escapes b
             | Returns data \<Rightarrow>
                 (case py_get data ''results'' (PList []) of
                    Inl x \<Rightarrow> Raises x
                  | Inr v \<Rightarrow> Returns v))
          else Returns (PStr (tavily_http_failure query)))"

text \<open>
  \<open>fetch_from_tavily\<close>: \<open>except Exception\<close> turns what the body raised into the fixed
  string; an exception outside \<open>Exception\<close> leaves the function (\<open>Inl\<close>).
\<close>

definition fetch_from_tavily :: "env \<Rightarrow> string \<Rightarrow> base_exn + pyval" where
  "fetch_from_tavily e query =
     (case fetch_body e query of
        Raises x \<Rightarrow> Inr (PStr tavily_exception_failure)
      | Escapes b \<Rightarrow> Inl b
      | Returns v \<Rightarrow> Inr v)"

subsection \<open>Dispatcher\<close>

definition summarize_header :: string where
  "summarize_header = ''Summarize the following articles:'' @ [CHR 0x0A]"

definition no_results_message :: string where
  "no_results_message =
     [CHR 0xE2, CHR 0x9D, CHR 0x8C] @ '' No search results found from Tavily.''"

definition generic_failure :: string where
  "generic_failure =
     ''An error occurred while generating a response. Please try again later.''"

text \<open>The f-string of the loop body, given the two values looked up.\<close>

definition format_line :: "env \<Rightarrow> pyval \<Rightarrow> pyval \<Rightarrow> string" where
  "format_line e t u =
     ''Title: '' @ py_format e t @ '', Link: '' @ py_format e u @ [CHR 0x0A]"

text \<open>The text one pass of the \<open>for article in ...\<close> loop appends to the message.\<close>

definition article_line :: "env \<Rightarrow> pyval \<Rightarrow> exn + string" where
  "article_line e article =
     (case py_get article ''title'' (PStr ''No Title'') of
        Inl x \<Rightarrow> Inl x
      | Inr t \<Rightarrow>
          (case py_get article ''url'' (PStr ''No URL'') of
             Inl x \<Rightarrow> Inl x
           | Inr u \<Rightarrow> Inr (format_line e t u)))"

text \<open>The loop: \<open>message_to_gemini\<close> is the accumulator, the first exception ends it.\<close>

fun add_articles :: "env \<Rightarrow> string \<Rightarrow> pyval list \<Rightarrow> exn + string" where
  "add_articles e message_to_gemini [] = Inr message_to_gemini"
| "add_articles e message_to_gemini (article # rest) =
     (case article_line e article of
        Inl x \<Rightarrow> Inl x
      | Inr line \<Rightarrow> add_articles e (message_to_gemini @ line) rest)"

text \<open>\<open>response = chat_session.send_message(m); return response.text\<close>.\<close>

definition send_and_return :: "env \<Rightarrow> session \<Rightarrow> string \<Rightarrow> string outcome \<times> session" where
  "send_and_return e st m =
     (let st' = st\<lparr>sent := sent st @ [m]\<rparr> in
      case send_message e m of
        Raises x \<Rightarrow> (Raises x, st')
      | Escapes b \<Rightarrow> (Escapes b, st')
      | Returns response \<Rightarrow> (response_text response, st'))"

text \<open>
  The block the search branch and the summarize branch both contain: build the
  instruction from the first five articles, send it, return the reply.
\<close>

definition summarize_articles :: "env \<Rightarrow> session \<Rightarrow> pyval \<Rightarrow> string outcome \<times> session" where
  "summarize_articles e st articles =
     (case first_five articles of
        Inl x \<Rightarrow> (Raises x, st)
      | Inr five \<Rightarrow>
          (case add_articles e summarize_header five of
             Inl x \<Rightarrow> (Raises x, st)
           | Inr message_to_gemini \<Rightarrow> send_and_return e st message_to_gemini))"

text \<open>\<open>isinstance(v, list) and len(v) > 0\<close>.\<close>

fun nonempty_list :: "pyval \<Rightarrow> bool" where
  "nonempty_list (PList xs) = (0 < length xs)"
| "nonempty_list _ = False"

definition search_keyword :: "string \<Rightarrow> bool" where
  "search_keyword user_input =
     (py_in ''search'' (lower user_input) \<or> py_in ''find'' (lower user_input))"

definition summarize_keyword :: "string \<Rightarrow> bool" where
  "summarize_keyword user_input = py_in ''summarize'' (lower user_input)"

text \<open>The general-query part of the dispatcher, reached when no branch above returned.\<close>

definition general_query ::
  "env \<Rightarrow> session \<Rightarrow> string \<Rightarrow> string \<Rightarrow> string outcome \<times> session" where
  "general_query e st user_input user_id =
     (let st0 = st\<lparr>sent := sent st @ [user_input]\<rparr> in
      case send_message e user_input of
        Raises x \<Rightarrow> (Raises x, st0)
      | Escapes b \<Rightarrow> (Escapes b, st0)
      | Returns response \<Rightarrow>
          (let st1 = update_memory st0 user_id ''last_user_input'' (PStr user_input) in
           case response_text response of
             Raises x \<Rightarrow> (Raises x, st1)
           | Escapes b \<Rightarrow> (Escapes b, st1)
           | Returns t \<Rightarrow>
               (let st2 = update_memory st1 user_id ''last_gemini_response'' (PStr t);
                    st3 = st2\<lparr>conversation_memory := conversation_memory st2
                            @ [\<lparr>role = ''user'', content = user_input\<rparr>]\<rparr>;
                    st4 = st3\<lparr>conversation_memory := conversation_memory st3
                            @ [\<lparr>role = ''assistant'', content = t\<rparr>]\<rparr>
                in (Returns t, st4))))"

text \<open>The body of the \<open>try\<close> of \<open>chatbot_response\<close>.\<close>

definition chatbot_body ::
  "env \<Rightarrow> session \<Rightarrow> string \<Rightarrow> string \<Rightarrow> string outcome \<times> session" where
  "chatbot_body e st user_input user_id =
     (if search_keyword user_input then
        (case fetch_from_tavily e user_input of
           Inl b \<Rightarrow> (Escapes b, st)
         | Inr tavily_response \<Rightarrow>
             (let st1 = update_memory st user_id ''last_tavily_response'' tavily_response;
                  st2 = st1\<lparr>tavily_response_memory :=
                          (tavily_response_memory st1)(user_id \<mapsto> tavily_response)\<rparr>
              in if nonempty_list tavily_response
                 then summarize_articles e st2 tavily_response
                 else (Returns no_results_message, st2)))
      else
        (let last_tavily_response =
               (case tavily_response_memory st user_id of None \<Rightarrow> PNone | Some v \<Rightarrow> v)
         in if summarize_keyword user_input \<and> truthy last_tavily_response
            then summarize_articles e st last_tavily_response
            else general_query e st user_input user_id))"

text \<open>
  \<open>except Exception\<close>: whatever exception derived from \<open>Exception\<close> the body raised, the
  fixed string is returned. An exception outside \<open>Exception\<close> is not caught and reaches
  the caller (\<open>Inl\<close>).
\<close>

definition chatbot_response ::
  "env \<Rightarrow> session \<Rightarrow> string \<Rightarrow> string \<Rightarrow> (base_exn + string) \<times> session" where
  "chatbot_response e st user_input user_id =
     (case chatbot_body e st user_input user_id of
        (Raises x, st') \<Rightarrow> (Inr generic_failure, st')
      | (Escapes b, st') \<Rightarrow> (Inl b, st')
      | (Returns reply, st') \<Rightarrow> (Inr reply, st'))"

subsection \<open>UI shell\<close>

definition goodbye_message :: string where
  "goodbye_message =
     ''Exiting chat. Goodbye! '' @ [CHR 0xF0, CHR 0x9F, CHR 0x91, CHR 0x8B]"

definition bot_prefix :: string where
  "bot_prefix = [CHR 0xF0, CHR 0x9F, CHR 0xA4, CHR 0x96] @ '' ChatBot: ''"

definition exit_keywords :: "string list" where
  "exit_keywords = [''q'', ''exit'', ''quit'']"

text \<open>
  The script from the exit test on, that is what it does with the text read from the
  input field (the title and the introduction are rendered before the field, on every
  run). \<open>written\<close> are the arguments of the \<open>st.write\<close> calls of this part, \<open>dispatched\<close>
  the arguments of its calls of \<open>chatbot_response\<close>, \<open>session_after\<close> the session it
  leaves, \<open>escaped\<close> the exception that ended it, if one did. \<open>st.stop()\<close> ends the
  script.
\<close>

record ui_result =
  written :: "string list"
  dispatched :: "string list"
  session_after :: session
  escaped :: "base_exn option"

definition ui_turn :: "env \<Rightarrow> session \<Rightarrow> string \<Rightarrow> ui_result" where
  "ui_turn e st user_input =
     (if lower user_input \<in> set exit_keywords then
        \<lparr>written = [goodbye_message], dispatched = [], session_after = st, escaped = None\<rparr>
      else if user_input \<noteq> [] then
        (case chatbot_response e st user_input ''user_1'' of
           (Inl b, st') \<Rightarrow>
             \<lparr>written = [], dispatched = [user_input], session_after = st',
              escaped = Some b\<rparr>
         | (Inr response, st') \<Rightarrow>
             \<lparr>written = [bot_prefix @ response], dispatched = [user_input],
              session_after = st', escaped = None\<rparr>)
      else \<lparr>written = [], dispatched = [], session_after = st, escaped = None\<rparr>)"

subsection \<open>Notions used in the statements\<close>

text \<open>The title/URL pair the loop writes for a hit that is a dict.\<close>

definition hit_pair :: "env \<Rightarrow> (string \<times> pyval) list \<Rightarrow> string" where
  "hit_pair e d =
     format_line e (dict_get d ''title'' (PStr ''No Title''))
       (dict_get d ''url'' (PStr ''No URL''))"

text \<open>The state in which the search branch continues after storing the result twice.\<close>

definition stored :: "session \<Rightarrow> string \<Rightarrow> pyval \<Rightarrow> session" where
  "stored st u v =
     (update_memory st u ''last_tavily_response'' v)
       \<lparr>tavily_response_memory :=
          (tavily_response_memory (update_memory st u ''last_tavily_response'' v))(u \<mapsto> v)\<rparr>"

text \<open>The session at start-up, and an outside world that answers every call the same way.\<close>

definition initial_session :: session where
  "initial_session =
     \<lparr>conversation_memory = [], user_memory = Map.empty,
      tavily_response_memory = Map.empty, sent = []\<rparr>"

definition fixed_env :: "http_response outcome \<Rightarrow> chat_response outcome \<Rightarrow> env" where
  "fixed_env h c =
     \<lparr>tavily_api_key = ''key'', requests_get = (\<lambda>url. h), send_message = (\<lambda>m. c),
      str_other = (\<lambda>v. ''None'')\<rparr>"

definition two_dicts :: "(string \<times> pyval) list list" where
  "two_dicts =
     [[(''title'', PStr ''A''), (''url'', PStr ''u1'')],
      [(''title'', PStr ''B''), (''url'', PStr ''u2'')]]"

definition two_hits :: "pyval list" where
  "two_hits = map PDict two_dicts"

definition ok_response :: "pyval \<Rightarrow> http_response outcome" where
  "ok_response results =
     Returns \<lparr>status_code = 200, json = Returns (PDict [(''results'', results)])\<rparr>"

definition reply :: "string \<Rightarrow> chat_response outcome" where
  "reply t = Returns (ChatResponse (Returns t))"

section \<open>Properties\<close>

subsection \<open>Auxiliary facts\<close>

lemma article_line_dict: "article_line e (PDict d) = Inr (hit_pair e d)"
  by (simp add: article_line_def hit_pair_def)

lemma article_line_str: "article_line e (PStr s) = Inl AttributeError"
  by (simp add: article_line_def)

lemma add_articles_dicts:
  "add_articles e m (map PDict ds) = Inr (m @ concat (map (hit_pair e) ds))"
  by (induction ds arbitrary: m) (simp_all add: article_line_dict)

lemma nonempty_list_iff: "nonempty_list v \<longleftrightarrow> (\<exists>x xs. v = PList (x # xs))"
  by (cases v) (auto simp: neq_Nil_conv)

lemma update_memory_frame:
  "conversation_memory (update_memory st u k v) = conversation_memory st"
  "tavily_response_memory (update_memory st u k v) = tavily_response_memory st"
  "sent (update_memory st u k v) = sent st"
  by (simp_all add: update_memory_def)

lemma send_and_return_frame:
  "conversation_memory (snd (send_and_return e st m)) = conversation_memory st"
  "sent (snd (send_and_return e st m)) = sent st @ [m]"
  by (simp_all add: send_and_return_def Let_def split: outcome.splits)

lemma summarize_articles_frame:
  "conversation_memory (snd (summarize_articles e st v)) = conversation_memory st"
  by (simp add: summarize_articles_def send_and_return_frame split: sum.splits)

lemma chatbot_response_fst:
  "fst (chatbot_response e st i u) =
     (case fst (chatbot_body e st i u) of
        Raises x \<Rightarrow> Inr generic_failure
      | Escapes b \<Rightarrow> Inl b
      | Returns r \<Rightarrow> Inr r)"
  by (simp add: chatbot_response_def split: prod.splits outcome.splits)

lemma chatbot_response_snd:
  "snd (chatbot_response e st i u) = snd (chatbot_body e st i u)"
  by (simp add: chatbot_response_def split: prod.splits outcome.splits)

lemma stored_frame:
  "conversation_memory (stored st u v) = conversation_memory st"
  "sent (stored st u v) = sent st"
  "tavily_response_memory (stored st u v) u = Some v"
  by (simp_all add: stored_def update_memory_frame)

lemma chatbot_body_search:
  "search_keyword i \<Longrightarrow> fetch_from_tavily e i = Inr v \<Longrightarrow>
   chatbot_body e st i u =
     (if nonempty_list v
      then summarize_articles e (stored st u v) v
      else (Returns no_results_message, stored st u v))"
  by (simp add: chatbot_body_def Let_def stored_def)

lemma chatbot_body_search_escapes:
  "search_keyword i \<Longrightarrow> fetch_from_tavily e i = Inl b \<Longrightarrow>
   chatbot_body e st i u = (Escapes b, st)"
  by (simp add: chatbot_body_def)

lemma keyword_examples:
  "search_keyword ''search climate change''"
  "search_keyword ''Find cats''"
  "\<not> search_keyword ''summarize it''"
  "summarize_keyword ''summarize it''"
  "summarize_keyword ''Summarize IT''"
  "\<not> search_keyword ''hello''"
  "\<not> summarize_keyword ''hello''"
  unfolding search_keyword_def summarize_keyword_def by code_simp+

lemma fetch_fixed_ok:
  "fetch_from_tavily (fixed_env (ok_response v) c) q = Inr v"
  by (simp add: fetch_from_tavily_def fetch_body_def fixed_env_def ok_response_def
      dict_get_def)

lemma fetch_fixed_raise:
  "fetch_from_tavily (fixed_env (Raises x) c) q = Inr (PStr tavily_exception_failure)"
  by (simp add: fetch_from_tavily_def fetch_body_def fixed_env_def)

subsection \<open>Search path\<close>

text \<open>
  C1. An input whose lowercased text contains "search" or "find", for which the search
  client returns a list of \<open>N > 0\<close> hits (the first five of them dicts \<open>ds\<close>): the one
  message sent to the chat session is the header followed by the title/URL pairs of
  \<open>ds\<close>; there are \<open>min N 5\<close> of them, the \<open>n\<close>-th is the pair of the \<open>n\<close>-th hit
  received; and when the chat session answers with a text, that text is what the
  dispatcher returns.
\<close>

theorem search_instruction_first_five:
  assumes kw: "search_keyword user_input"
    and fetch: "fetch_from_tavily e user_input = Inr (PList hits)"
    and pos: "0 < length hits"
    and dicts: "take 5 hits = map PDict ds"
  shows "sent (snd (chatbot_response e st user_input user_id))
           = sent st @ [summarize_header @ concat (map (hit_pair e) ds)]
       \<and> length ds = min (length hits) 5
       \<and> (\<forall>n<length ds. hits ! n = PDict (ds ! n))
       \<and> (\<forall>t. send_message e (summarize_header @ concat (map (hit_pair e) ds))
                 = Returns (ChatResponse (Returns t))
              \<longrightarrow> fst (chatbot_response e st user_input user_id) = Inr t)"
proof -
  let ?m = "summarize_header @ concat (map (hit_pair e) ds)"
  let ?st = "stored st user_id (PList hits)"
  have body: "chatbot_body e st user_input user_id = send_and_return e ?st ?m"
    using pos dicts
    by (simp add: chatbot_body_search [OF kw fetch] summarize_articles_def add_articles_dicts)
  have len: "length ds = min (length hits) 5"
  proof -
    have "length (map PDict ds) = length (take 5 hits)" using dicts by simp
    then show ?thesis by simp
  qed
  have nth: "hits ! n = PDict (ds ! n)" if "n < length ds" for n
  proof -
    have "n < 5" and "n < length hits" using that len by simp_all
    then have "take 5 hits ! n = hits ! n" by simp
    moreover have "map PDict ds ! n = PDict (ds ! n)" using that by simp
    ultimately show ?thesis using dicts by simp
  qed
  have s: "sent (snd (chatbot_response e st user_input user_id)) = sent st @ [?m]"
    by (simp add: chatbot_response_snd body send_and_return_frame stored_frame)
  have r: "fst (chatbot_response e st user_input user_id) = Inr t"
    if "send_message e ?m = Returns (ChatResponse (Returns t))" for t
    using that by (simp add: chatbot_response_fst body send_and_return_def Let_def)
  from s len nth r show ?thesis by blast
qed

theorem search_instruction_first_five_witness:
  "sent (snd (chatbot_response (fixed_env (ok_response (PList two_hits)) (reply ''summary''))
       initial_session ''search climate change'' ''user_1''))
     = [''Summarize the following articles:'' @ [CHR 0x0A]
          @ ''Title: A, Link: u1'' @ [CHR 0x0A] @ ''Title: B, Link: u2'' @ [CHR 0x0A]]
   \<and> fst (chatbot_response (fixed_env (ok_response (PList two_hits)) (reply ''summary''))
       initial_session ''search climate change'' ''user_1'') = Inr ''summary''"
proof -
  let ?e = "fixed_env (ok_response (PList two_hits)) (reply ''summary'')"
  have h2: "fetch_from_tavily ?e ''search climate change'' = Inr (PList two_hits)"
    by (rule fetch_fixed_ok)
  have h3: "0 < length two_hits" by (simp add: two_hits_def two_dicts_def)
  have h4: "take 5 two_hits = map PDict two_dicts" by (simp add: two_hits_def two_dicts_def)
  have m: "summarize_header @ concat (map (hit_pair ?e) two_dicts)
      = ''Summarize the following articles:'' @ [CHR 0x0A]
          @ ''Title: A, Link: u1'' @ [CHR 0x0A] @ ''Title: B, Link: u2'' @ [CHR 0x0A]"
    by (simp add: summarize_header_def hit_pair_def format_line_def dict_get_def two_dicts_def)
  have snd: "send_message ?e (summarize_header @ concat (map (hit_pair ?e) two_dicts))
      = Returns (ChatResponse (Returns ''summary''))"
    by (simp add: fixed_env_def reply_def)
  from search_instruction_first_five [OF keyword_examples(1) h2 h3 h4,
      of initial_session "''user_1''"] snd m
  show ?thesis by (simp add: initial_session_def)
qed

text \<open>
  C2. An input whose lowercased text contains "search" or "find", for which the HTTP
  request raises (a transport error, of a class derived from \<open>Exception\<close>), or answers
  with a status other than 200, or the search client yields the empty list: the
  dispatcher returns the fixed "no results" message and nothing is sent to the chat
  session.
\<close>

theorem search_failure_no_results:
  assumes kw: "search_keyword user_input"
    and fail: "(\<exists>x. requests_get e (tavily_url e user_input) = Raises x)
             \<or> (\<exists>r. requests_get e (tavily_url e user_input) = Returns r
                    \<and> status_code r \<noteq> 200)
             \<or> fetch_from_tavily e user_input = Inr (PList [])"
  shows "fst (chatbot_response e st user_input user_id) = Inr no_results_message
       \<and> sent (snd (chatbot_response e st user_input user_id)) = sent st"
proof -
  from fail obtain v where v: "fetch_from_tavily e user_input = Inr v" "\<not> nonempty_list v"
    by (auto simp: fetch_from_tavily_def fetch_body_def)
  then have "chatbot_body e st user_input user_id
      = (Returns no_results_message, stored st user_id v)"
    by (simp add: chatbot_body_search [OF kw v(1)])
  then show ?thesis
    by (simp add: chatbot_response_fst chatbot_response_snd stored_frame)
qed

theorem search_failure_no_results_witness:
  "fst (chatbot_response
         (fixed_env (Returns \<lparr>status_code = 503, json = Raises ExternalError\<rparr>)
            (reply ''summary''))
         initial_session ''Find cats'' ''user_1'') = Inr no_results_message
   \<and> sent (snd (chatbot_response
         (fixed_env (Returns \<lparr>status_code = 503, json = Raises ExternalError\<rparr>)
            (reply ''summary''))
         initial_session ''Find cats'' ''user_1'')) = []
   \<and> fst (chatbot_response (fixed_env (Raises ExternalError) (reply ''summary''))
         initial_session ''Find cats'' ''user_1'') = Inr no_results_message
   \<and> fst (chatbot_response (fixed_env (ok_response (PList [])) (reply ''summary''))
         initial_session ''Find cats'' ''user_1'') = Inr no_results_message"
proof -
  let ?r = "\<lparr>status_code = 503, json = Raises ExternalError\<rparr>"
  let ?e1 = "fixed_env (Returns ?r) (reply ''summary'')"
  let ?e2 = "fixed_env (Raises ExternalError) (reply ''summary'')"
  let ?e3 = "fixed_env (ok_response (PList [])) (reply ''summary'')"
  have f1: "(\<exists>x. requests_get ?e1 (tavily_url ?e1 ''Find cats'') = Raises x)
      \<or> (\<exists>r. requests_get ?e1 (tavily_url ?e1 ''Find cats'') = Returns r
             \<and> status_code r \<noteq> 200)
      \<or> fetch_from_tavily ?e1 ''Find cats'' = Inr (PList [])"
    by (simp add: fixed_env_def)
  have f2: "(\<exists>x. requests_get ?e2 (tavily_url ?e2 ''Find cats'') = Raises x)
      \<or> (\<exists>r. requests_get ?e2 (tavily_url ?e2 ''Find cats'') = Returns r
             \<and> status_code r \<noteq> 200)
      \<or> fetch_from_tavily ?e2 ''Find cats'' = Inr (PList [])"
    by (simp add: fixed_env_def)
  have f3: "(\<exists>x. requests_get ?e3 (tavily_url ?e3 ''Find cats'') = Raises x)
      \<or> (\<exists>r. requests_get ?e3 (tavily_url ?e3 ''Find cats'') = Returns r
             \<and> status_code r \<noteq> 200)
      \<or> fetch_from_tavily ?e3 ''Find cats'' = Inr (PList [])"
    by (simp add: fetch_fixed_ok)
  from search_failure_no_results [OF keyword_examples(2) f1, of initial_session "''user_1''"]
    search_failure_no_results [OF keyword_examples(2) f2, of initial_session "''user_1''"]
    search_failure_no_results [OF keyword_examples(2) f3, of initial_session "''user_1''"]
  show ?thesis by (simp add: initial_session_def)
qed

subsection \<open>Summarize path and general path\<close>

text \<open>
  C3. An input whose lowercased text contains "summarize" but neither "search" nor
  "find", when no search results are stored for the user, that is when the user has no
  entry or the entry is a value that counts as false (the empty list a search without
  hits leaves, \<open>None\<close>, an empty string): the dispatcher does what the general-query part
  does, so the raw input is the one message sent to the chat session, and a text the
  chat session answers with is returned as it is.
\<close>

theorem summarize_without_results_falls_through:
  assumes "summarize_keyword user_input"
    and "\<not> search_keyword user_input"
    and "\<forall>v. tavily_response_memory st user_id = Some v \<longrightarrow> \<not> truthy v"
  shows "chatbot_body e st user_input user_id = general_query e st user_input user_id
       \<and> sent (snd (chatbot_response e st user_input user_id)) = sent st @ [user_input]
       \<and> (\<forall>t. send_message e user_input = Returns (ChatResponse (Returns t))
              \<longrightarrow> fst (chatbot_response e st user_input user_id) = Inr t)"
proof -
  have "\<not> truthy (case tavily_response_memory st user_id of None \<Rightarrow> PNone | Some v \<Rightarrow> v)"
    using assms(3) by (simp split: option.splits)
  then have body: "chatbot_body e st user_input user_id = general_query e st user_input user_id"
    using assms(2) by (simp add: chatbot_body_def)
  have s: "sent (snd (general_query e st user_input user_id)) = sent st @ [user_input]"
    by (simp add: general_query_def Let_def update_memory_frame split: outcome.splits)
  have r: "fst (chatbot_response e st user_input user_id) = Inr t"
    if "send_message e user_input = Returns (ChatResponse (Returns t))" for t
    using that by (simp add: chatbot_response_fst body general_query_def Let_def)
  from body s r show ?thesis by (simp add: chatbot_response_snd)
qed

text \<open>
  The theorem with nothing stored, with the empty list stored by a search without hits,
  and with \<open>None\<close> stored: each time the input itself is what is sent.
\<close>

theorem summarize_without_results_falls_through_witness:
  "sent (snd (chatbot_response (fixed_env (Raises ExternalError) (reply ''Summarize what?''))
       initial_session ''summarize it'' ''user_1'')) = [''summarize it'']
   \<and> fst (chatbot_response (fixed_env (Raises ExternalError) (reply ''Summarize what?''))
       initial_session ''summarize it'' ''user_1'') = Inr ''Summarize what?''
   \<and> tavily_response_memory
        (snd (chatbot_response (fixed_env (ok_response (PList [])) (reply ''Summarize what?''))
               initial_session ''Find cats'' ''user_1'')) ''user_1'' = Some (PList [])
   \<and> sent (snd (chatbot_response (fixed_env (Raises ExternalError) (reply ''Summarize what?''))
       (snd (chatbot_response (fixed_env (ok_response (PList [])) (reply ''Summarize what?''))
               initial_session ''Find cats'' ''user_1''))
       ''summarize it'' ''user_1'')) = [''summarize it'']
   \<and> fst (chatbot_response (fixed_env (Raises ExternalError) (reply ''Summarize what?''))
       (snd (chatbot_response (fixed_env (ok_response (PList [])) (reply ''Summarize what?''))
               initial_session ''Find cats'' ''user_1''))
       ''summarize it'' ''user_1'') = Inr ''Summarize what?''
   \<and> sent (snd (chatbot_response (fixed_env (Raises ExternalError) (reply ''Summarize what?''))
       (stored initial_session ''user_1'' PNone) ''summarize it'' ''user_1''))
       = [''summarize it'']"
proof -
  let ?e = "fixed_env (Raises ExternalError) (reply ''Summarize what?'')"
  let ?ez = "fixed_env (ok_response (PList [])) (reply ''Summarize what?'')"
  let ?st1 = "snd (chatbot_response ?ez initial_session ''Find cats'' ''user_1'')"
  let ?st2 = "stored initial_session ''user_1'' PNone"
  have st1: "?st1 = stored initial_session ''user_1'' (PList [])"
    by (simp add: chatbot_response_snd
        chatbot_body_search [OF keyword_examples(2) fetch_fixed_ok])
  have m1: "tavily_response_memory ?st1 ''user_1'' = Some (PList [])"
    by (simp add: st1 stored_frame)
  have "sent (stored initial_session ''user_1'' (PList [])) = []"
    by (simp add: stored_frame initial_session_def)
  then have s1: "sent ?st1 = []"
    by (simp add: st1)
  have s2: "sent ?st2 = []"
    by (simp add: stored_frame initial_session_def)
  have h0: "\<forall>v. tavily_response_memory initial_session ''user_1'' = Some v \<longrightarrow> \<not> truthy v"
    by (simp add: initial_session_def)
  have h1: "\<forall>v. tavily_response_memory ?st1 ''user_1'' = Some v \<longrightarrow> \<not> truthy v"
    by (simp add: m1)
  have h2: "\<forall>v. tavily_response_memory ?st2 ''user_1'' = Some v \<longrightarrow> \<not> truthy v"
    by (simp add: stored_frame)
  have snd: "send_message ?e ''summarize it''
      = Returns (ChatResponse (Returns ''Summarize what?''))"
    by (simp add: fixed_env_def reply_def)
  from summarize_without_results_falls_through
         [OF keyword_examples(4) keyword_examples(3) h0, of ?e] snd
  have r0: "sent (snd (chatbot_response ?e initial_session ''summarize it'' ''user_1''))
        = [''summarize it'']
      \<and> fst (chatbot_response ?e initial_session ''summarize it'' ''user_1'')
        = Inr ''Summarize what?''"
    by (simp add: initial_session_def)
  from summarize_without_results_falls_through
         [OF keyword_examples(4) keyword_examples(3) h1, of ?e] snd s1
  have r1: "sent (snd (chatbot_response ?e ?st1 ''summarize it'' ''user_1'')) = [''summarize it'']
      \<and> fst (chatbot_response ?e ?st1 ''summarize it'' ''user_1'') = Inr ''Summarize what?''"
    by simp
  from summarize_without_results_falls_through
         [OF keyword_examples(4) keyword_examples(3) h2, of ?e] s2
  have r2: "sent (snd (chatbot_response ?e ?st2 ''summarize it'' ''user_1'')) = [''summarize it'']"
    by simp
  from r0 m1 r1 r2 show ?thesis by blast
qed

text \<open>
  C4. An input whose lowercased text contains none of "search", "find", "summarize",
  when the chat session answers with a text \<open>t\<close>: the conversation history afterwards is
  the one before followed by a user turn holding the input and an assistant turn holding
  \<open>t\<close>, two entries more.
\<close>

theorem general_query_appends_two_turns:
  assumes "\<not> search_keyword user_input"
    and "\<not> summarize_keyword user_input"
    and "send_message e user_input = Returns (ChatResponse (Returns t))"
  shows "conversation_memory (snd (chatbot_response e st user_input user_id))
           = conversation_memory st
               @ [\<lparr>role = ''user'', content = user_input\<rparr>,
                  \<lparr>role = ''assistant'', content = t\<rparr>]
       \<and> length (conversation_memory (snd (chatbot_response e st user_input user_id)))
           = length (conversation_memory st) + 2"
  using assms
  by (simp add: chatbot_response_snd chatbot_body_def general_query_def Let_def
      update_memory_frame)

theorem general_query_appends_two_turns_witness:
  "conversation_memory (snd (chatbot_response (fixed_env (Raises ExternalError) (reply ''hi''))
       initial_session ''hello'' ''user_1''))
     = [\<lparr>role = ''user'', content = ''hello''\<rparr>, \<lparr>role = ''assistant'', content = ''hi''\<rparr>]"
proof -
  let ?e = "fixed_env (Raises ExternalError) (reply ''hi'')"
  have snd: "send_message ?e ''hello'' = Returns (ChatResponse (Returns ''hi''))"
    by (simp add: fixed_env_def reply_def)
  from general_query_appends_two_turns
         [OF keyword_examples(6) keyword_examples(7) snd, of initial_session "''user_1''"]
  show ?thesis by (simp add: initial_session_def)
qed

text \<open>
  C5. An input that takes the search branch, or the summarize branch with stored results
  present (a stored value that counts as true): the conversation history afterwards is
  the one before; neither the instruction nor the reply is appended.
\<close>

theorem search_and_summarize_keep_history:
  assumes "search_keyword user_input
         \<or> (summarize_keyword user_input
            \<and> (\<exists>v. tavily_response_memory st user_id = Some v \<and> truthy v))"
  shows "conversation_memory (snd (chatbot_response e st user_input user_id))
           = conversation_memory st"
proof (cases "search_keyword user_input")
  case True
  show ?thesis
  proof (cases "fetch_from_tavily e user_input")
    case (Inl b)
    then show ?thesis
      by (simp add: chatbot_response_snd chatbot_body_search_escapes [OF True])
  next
    case (Inr v)
    then show ?thesis
      by (simp add: chatbot_response_snd chatbot_body_search [OF True]
          summarize_articles_frame stored_frame)
  qed
next
  case False
  with assms obtain v where "summarize_keyword user_input"
    and "tavily_response_memory st user_id = Some v" and "truthy v"
    by blast
  with False show ?thesis
    by (simp add: chatbot_response_snd chatbot_body_def summarize_articles_frame)
qed

theorem search_and_summarize_keep_history_witness:
  "conversation_memory (snd (chatbot_response
       (fixed_env (ok_response (PList two_hits)) (reply ''summary''))
       initial_session ''search climate change'' ''user_1'')) = []
   \<and> conversation_memory (snd (chatbot_response
       (fixed_env (Raises ExternalError) (reply ''summary''))
       (stored initial_session ''user_1'' (PList two_hits)) ''summarize it'' ''user_1'')) = []"
proof -
  let ?e1 = "fixed_env (ok_response (PList two_hits)) (reply ''summary'')"
  let ?e2 = "fixed_env (Raises ExternalError) (reply ''summary'')"
  let ?st = "stored initial_session ''user_1'' (PList two_hits)"
  have h1: "search_keyword ''search climate change''
      \<or> (summarize_keyword ''search climate change''
         \<and> (\<exists>v. tavily_response_memory initial_session ''user_1'' = Some v \<and> truthy v))"
    by (simp add: keyword_examples)
  have h2: "search_keyword ''summarize it''
      \<or> (summarize_keyword ''summarize it''
         \<and> (\<exists>v. tavily_response_memory ?st ''user_1'' = Some v \<and> truthy v))"
    by (simp add: keyword_examples stored_frame two_hits_def two_dicts_def)
  from search_and_summarize_keep_history [OF h1, of ?e1]
    search_and_summarize_keep_history [OF h2, of ?e2]
  show ?thesis by (simp add: stored_frame initial_session_def)
qed

subsection \<open>Exceptions\<close>



lemma general_query_fst:
  "fst (general_query e st i u) =
     (case send_message e i of
        Raises x \<Rightarrow> Raises x
      | Escapes b \<Rightarrow> Escapes b
      | Returns response \<Rightarrow> response_text response)"
  by (simp add: general_query_def Let_def split: outcome.splits)








subsection \<open>UI shell\<close>

lemma lower_examples:
  "lower ''QUIT'' = ''quit''"
  "lower ''Q'' = ''q''"
  "lower ''exit'' = ''exit''"
  "lower ''quit now'' = ''quit now''"
  unfolding lower_def lower_char_def by code_simp+

text \<open>
  C7. An input that, lowercased, equals "q", "exit" or "quit": the script writes the
  goodbye message and nothing else, does not call the dispatcher, and leaves the
  session as it was, whatever the outside world would have answered.
\<close>

theorem exit_keyword_only_goodbye:
  assumes "lower user_input \<in> set exit_keywords"
  shows "ui_turn e st user_input
           = \<lparr>written = [goodbye_message], dispatched = [], session_after = st,
              escaped = None\<rparr>"
  using assms by (simp add: ui_turn_def)

theorem exit_keyword_only_goodbye_witness:
  "ui_turn (fixed_env (Raises ExternalError) (reply ''hi'')) initial_session ''QUIT''
     = \<lparr>written = [goodbye_message], dispatched = [], session_after = initial_session,
        escaped = None\<rparr>
   \<and> ui_turn (fixed_env (Raises ExternalError) (reply ''hi'')) initial_session ''Q''
     = \<lparr>written = [goodbye_message], dispatched = [], session_after = initial_session,
        escaped = None\<rparr>
   \<and> ui_turn (fixed_env (Raises ExternalError) (reply ''hi'')) initial_session ''exit''
     = \<lparr>written = [goodbye_message], dispatched = [], session_after = initial_session,
        escaped = None\<rparr>"
proof -
  have h1: "lower ''QUIT'' \<in> set exit_keywords"
    and h2: "lower ''Q'' \<in> set exit_keywords"
    and h3: "lower ''exit'' \<in> set exit_keywords"
    by (simp_all add: lower_examples exit_keywords_def)
  from exit_keyword_only_goodbye [OF h1] exit_keyword_only_goodbye [OF h2]
    exit_keyword_only_goodbye [OF h3]
  show ?thesis by simp
qed

text \<open>
  C10. The exit test is an equality on the whole lowercased input. An input in which
  "q", "exit" or "quit" occurs but which, lowercased, is none of the three is passed to
  the dispatcher for user \<open>user_1\<close>; the script keeps the session the dispatcher left
  and writes the bot's line with the string the dispatcher returned (when the
  dispatcher raised instead, the exception ends the script and nothing is written).
\<close>

theorem exit_keyword_inside_is_dispatched:
  assumes occurs: "py_in ''q'' (lower user_input) \<or> py_in ''exit'' (lower user_input)
                 \<or> py_in ''quit'' (lower user_input)"
    and differs: "lower user_input \<notin> set exit_keywords"
  shows "ui_turn e st user_input
           = \<lparr>written = (case fst (chatbot_response e st user_input ''user_1'') of
                          Inl b \<Rightarrow> []
                        | Inr response \<Rightarrow> [bot_prefix @ response]),
              dispatched = [user_input],
              session_after = snd (chatbot_response e st user_input ''user_1''),
              escaped = (case fst (chatbot_response e st user_input ''user_1'') of
                           Inl b \<Rightarrow> Some b
                         | Inr response \<Rightarrow> None)\<rparr>"
proof -
  have "user_input \<noteq> []"
    using occurs by (auto simp: lower_def)
  with differs show ?thesis
    by (simp add: ui_turn_def split: prod.splits sum.splits)
qed

theorem exit_keyword_inside_is_dispatched_witness:
  "ui_turn (fixed_env (Raises ExternalError) (reply ''Bye?'')) initial_session ''quit now''
     = \<lparr>written = [bot_prefix @ ''Bye?''], dispatched = [''quit now''],
        session_after =
          snd (chatbot_response (fixed_env (Raises ExternalError) (reply ''Bye?''))
                 initial_session ''quit now'' ''user_1''),
        escaped = None\<rparr>"
proof -
  let ?e = "fixed_env (Raises ExternalError) (reply ''Bye?'')"
  have h1: "py_in ''q'' (lower ''quit now'') \<or> py_in ''exit'' (lower ''quit now'')
      \<or> py_in ''quit'' (lower ''quit now'')"
    by (simp add: lower_examples)
  have h2: "lower ''quit now'' \<notin> set exit_keywords"
    by (simp add: lower_examples exit_keywords_def)
  have kw: "\<not> search_keyword ''quit now''" "\<not> summarize_keyword ''quit now''"
    unfolding search_keyword_def summarize_keyword_def by code_simp+
  have r: "fst (chatbot_response ?e initial_session ''quit now'' ''user_1'') = Inr ''Bye?''"
    by (simp add: chatbot_response_fst chatbot_body_def kw general_query_fst fixed_env_def
        reply_def)
  from exit_keyword_inside_is_dispatched [OF h1 h2, of ?e initial_session] r
  show ?thesis by simp
qed

subsection \<open>Memory\<close>

text \<open>
  C8. Two calls of \<open>get_user_memory\<close> for the same user and key, one after the other:
  both return the same value and the session is not changed by either. For a user with
  no memory, or a key that the user's memory does not hold, the value is \<open>None\<close>.
\<close>

theorem get_user_memory_repeatable:
  "(case get_user_memory st user_id key of
      (v1, st1) \<Rightarrow>
        (case get_user_memory st1 user_id key of
           (v2, st2) \<Rightarrow> v1 = v2 \<and> st1 = st \<and> st2 = st))
   \<and> ((\<forall>m. user_memory st user_id = Some m \<longrightarrow> m key = None)
        \<longrightarrow> fst (get_user_memory st user_id key) = PNone)"
  by (auto simp: get_user_memory_def split: option.splits)

theorem get_user_memory_repeatable_witness:
  "fst (get_user_memory initial_session ''user_1'' ''last_user_input'') = PNone
   \<and> fst (get_user_memory (update_memory initial_session ''user_1'' ''last_user_input''
            (PStr ''hello'')) ''user_1'' ''last_gemini_response'') = PNone
   \<and> (case get_user_memory (update_memory initial_session ''user_1'' ''last_user_input''
            (PStr ''hello'')) ''user_1'' ''last_user_input'' of
        (v1, st1) \<Rightarrow>
          (case get_user_memory st1 ''user_1'' ''last_user_input'' of
             (v2, st2) \<Rightarrow> v1 = PStr ''hello'' \<and> v2 = PStr ''hello''))"
proof -
  let ?st = "update_memory initial_session ''user_1'' ''last_user_input'' (PStr ''hello'')"
  have a: "\<forall>m. user_memory initial_session ''user_1'' = Some m \<longrightarrow> m ''last_user_input'' = None"
    by (simp add: initial_session_def)
  have b: "\<forall>m. user_memory ?st ''user_1'' = Some m \<longrightarrow> m ''last_gemini_response'' = None"
    by (simp add: update_memory_def initial_session_def)
  have c: "fst (get_user_memory ?st ''user_1'' ''last_user_input'') = PStr ''hello''"
    by (simp add: get_user_memory_def update_memory_def initial_session_def)
  from get_user_memory_repeatable [of initial_session "''user_1''" "''last_user_input''"] a
  have r1: "fst (get_user_memory initial_session ''user_1'' ''last_user_input'') = PNone"
    by blast
  from get_user_memory_repeatable [of ?st "''user_1''" "''last_gemini_response''"] b
  have r2: "fst (get_user_memory ?st ''user_1'' ''last_gemini_response'') = PNone"
    by blast
  from get_user_memory_repeatable [of ?st "''user_1''" "''last_user_input''"] c
  have r3: "(case get_user_memory ?st ''user_1'' ''last_user_input'' of
        (v1, st1) \<Rightarrow>
          (case get_user_memory st1 ''user_1'' ''last_user_input'' of
             (v2, st2) \<Rightarrow> v1 = PStr ''hello'' \<and> v2 = PStr ''hello''))"
    by (auto split: prod.splits)
  from r1 r2 r3 show ?thesis by blast
qed

subsection \<open>A failed search followed by "summarize"\<close>

lemma get_user_memory_stored:
  "fst (get_user_memory (stored st u v) u ''last_tavily_response'') = v"
  by (simp add: get_user_memory_def stored_def update_memory_def)

lemma failure_strings_long:
  "5 \<le> length tavily_exception_failure"
  "5 \<le> length (tavily_http_failure q)"
  by (simp_all add: tavily_exception_failure_def tavily_http_failure_def)

lemma add_articles_chars:
  "s \<noteq> [] \<Longrightarrow> add_articles e m (map (\<lambda>c. PStr [c]) s) = Inl AttributeError"
  by (cases s) (simp_all add: article_line_str)

lemma summarize_articles_str:
  "s \<noteq> [] \<Longrightarrow> summarize_articles e st (PStr s) = (Raises AttributeError, st)"
  by (simp add: summarize_articles_def add_articles_chars)

text \<open>
  C9. A search whose HTTP request raises (a transport error, of a class derived from
  \<open>Exception\<close>) or answers with a status other than 200 stores
  the failure string \<open>f\<close> as the user's last search results, in both memories. For a
  following input that contains "summarize" (and neither "search" nor "find") the
  string counts as stored results; its first five characters are the articles of the
  loop; \<open>article.get\<close> raises \<open>AttributeError\<close> on a character; and the dispatcher
  returns the generic failure string, with nothing sent and the session as the search
  left it.
\<close>

theorem failed_search_then_summarize_fails:
  assumes kw1: "search_keyword search_input"
    and fail: "(\<exists>x. requests_get e1 (tavily_url e1 search_input) = Raises x)
             \<or> (\<exists>r. requests_get e1 (tavily_url e1 search_input) = Returns r
                    \<and> status_code r \<noteq> 200)"
    and kw2: "summarize_keyword user_input"
    and nkw2: "\<not> search_keyword user_input"
  shows "(let f = (case requests_get e1 (tavily_url e1 search_input) of
                     Raises x \<Rightarrow> tavily_exception_failure
                   | Returns r \<Rightarrow> tavily_http_failure search_input
                   | Escapes b \<Rightarrow> []);
              st1 = snd (chatbot_response e1 st search_input user_id)
          in tavily_response_memory st1 user_id = Some (PStr f)
           \<and> fst (get_user_memory st1 user_id ''last_tavily_response'') = PStr f
           \<and> truthy (PStr f)
           \<and> first_five (PStr f) = Inr (map (\<lambda>c. PStr [c]) (take 5 f))
           \<and> length (take 5 f) = 5
           \<and> add_articles e2 summarize_header (map (\<lambda>c. PStr [c]) (take 5 f))
               = Inl AttributeError
           \<and> chatbot_body e2 st1 user_input user_id = (Raises AttributeError, st1)
           \<and> chatbot_response e2 st1 user_input user_id = (Inr generic_failure, st1))"
proof -
  define f where "f = (case requests_get e1 (tavily_url e1 search_input) of
                     Raises x \<Rightarrow> tavily_exception_failure
                   | Returns r \<Rightarrow> tavily_http_failure search_input
                   | Escapes b \<Rightarrow> [])"
  define st1 where "st1 = snd (chatbot_response e1 st search_input user_id)"
  have fetch: "fetch_from_tavily e1 search_input = Inr (PStr f)"
    using fail by (auto simp: f_def fetch_from_tavily_def fetch_body_def)
  have st1: "st1 = stored st user_id (PStr f)"
    by (simp add: st1_def chatbot_response_snd chatbot_body_search [OF kw1 fetch])
  have len: "5 \<le> length f"
    using fail by (auto simp: f_def failure_strings_long)
  then have ne: "f \<noteq> []" and ne5: "take 5 f \<noteq> []" by auto
  have m1: "tavily_response_memory st1 user_id = Some (PStr f)"
    by (simp add: st1 stored_frame)
  have m2: "fst (get_user_memory st1 user_id ''last_tavily_response'') = PStr f"
    by (simp add: st1 get_user_memory_stored)
  have loop: "add_articles e2 summarize_header (map (\<lambda>c. PStr [c]) (take 5 f))
      = Inl AttributeError"
    using ne5 by (rule add_articles_chars)
  have body: "chatbot_body e2 st1 user_input user_id = (Raises AttributeError, st1)"
    using kw2 nkw2 ne by (simp add: chatbot_body_def m1 summarize_articles_str)
  then have resp: "chatbot_response e2 st1 user_input user_id = (Inr generic_failure, st1)"
    by (simp add: chatbot_response_def)
  from m1 m2 ne len loop body resp show ?thesis
    unfolding Let_def f_def [symmetric] st1_def [symmetric] by simp
qed

theorem failed_search_then_summarize_fails_witness:
  "chatbot_response (fixed_env (Raises ExternalError) (reply ''summary''))
       (snd (chatbot_response (fixed_env (Raises ExternalError) (reply ''summary''))
               initial_session ''Find cats'' ''user_1''))
       ''summarize it'' ''user_1''
     = (Inr generic_failure,
        stored initial_session ''user_1'' (PStr tavily_exception_failure))
   \<and> sent (stored initial_session ''user_1'' (PStr tavily_exception_failure)) = []"
proof -
  let ?e = "fixed_env (Raises ExternalError) (reply ''summary'')"
  have fail: "(\<exists>x. requests_get ?e (tavily_url ?e ''Find cats'') = Raises x)
      \<or> (\<exists>r. requests_get ?e (tavily_url ?e ''Find cats'') = Returns r
             \<and> status_code r \<noteq> 200)"
    by (simp add: fixed_env_def)
  have st1: "snd (chatbot_response ?e initial_session ''Find cats'' ''user_1'')
      = stored initial_session ''user_1'' (PStr tavily_exception_failure)"
    by (simp add: chatbot_response_snd
        chatbot_body_search [OF keyword_examples(2) fetch_fixed_raise])
  from failed_search_then_summarize_fails
         [OF keyword_examples(2) fail keyword_examples(4) keyword_examples(3),
          of initial_session "''user_1''" ?e]
  have "chatbot_response ?e (snd (chatbot_response ?e initial_session ''Find cats'' ''user_1''))
          ''summarize it'' ''user_1''
        = (Inr generic_failure,
           snd (chatbot_response ?e initial_session ''Find cats'' ''user_1''))"
    by (simp add: Let_def)
  moreover have "sent (stored initial_session ''user_1'' (PStr tavily_exception_failure)) = []"
    by (simp add: stored_frame initial_session_def)
  ultimately show ?thesis
    by (simp add: st1)
qed

end
